theory Spec2Isabelle
  imports Main "HOL-Library.Multiset" "HOL-Library.Char_ord" "HOL-Library.List_Lexorder"
begin

section \<open>The Knative plugin for Octant (src/knative.ts)\<close>

text \<open>
  The plugin is one TypeScript class, \<^verbatim>\<open>MyPlugin\<close>. Its methods are embedded as HOL
  functions that take the receiver \<^verbatim>\<open>this\<close> as an explicit record. A thrown exception
  is the \<open>Inl\<close> branch of a sum. JavaScript strings are embedded as \<^typ>\<open>string\<close>: every
  string operation the plugin uses (\<^verbatim>\<open>===\<close>, \<^verbatim>\<open>startsWith\<close>, \<^verbatim>\<open>split\<close>, concatenation)
  works code unit by code unit, and a \<^typ>\<open>char\<close> stands for one code unit below 256.
\<close>

subsection \<open>Runtime: strings\<close>

text \<open>\<^verbatim>\<open>s.startsWith(p)\<close>.\<close>

definition startsWith :: "string \<Rightarrow> string \<Rightarrow> bool" where
  "startsWith s p \<longleftrightarrow> take (length p) s = p"

text \<open>
  \<^verbatim>\<open>s.split(sep)\<close> for a separator of one code unit: the segments between the
  occurrences of the separator, the empty string giving one empty segment.
\<close>

fun string_split :: "string \<Rightarrow> char \<Rightarrow> string list" where
  "string_split [] sep = [[]]"
| "string_split (c # cs) sep =
     (if c = sep then [] # string_split cs sep
      else (case string_split cs sep of
              [] \<Rightarrow> [[c]]
            | seg # segs \<Rightarrow> (c # seg) # segs))"

text \<open>\<^verbatim>\<open>xs[i]\<close>: reading an array past its end gives \<^verbatim>\<open>undefined\<close>, here \<open>None\<close>.\<close>

fun index :: "'a list \<Rightarrow> nat \<Rightarrow> 'a option" where
  "index [] i = None"
| "index (x # xs) 0 = Some x"
| "index (x # xs) (Suc i) = index xs i"

subsection \<open>Runtime: numbers and \<^verbatim>\<open>parseInt\<close>\<close>

text \<open>
  The Number values that \<^verbatim>\<open>parseInt\<close> returns are NaN or integers. \<open>Fin n\<close> is the
  integer denoted by the digits; the runtime stores it as a double, which is that
  integer itself up to \<open>2 ^ 53\<close> in magnitude. The sign of a difference of two such
  values is the sign of the difference of the integers.
\<close>

datatype number = NaN | Fin int

fun minus_number :: "number \<Rightarrow> number \<Rightarrow> number" where
  "minus_number (Fin a) (Fin b) = Fin (a - b)"
| "minus_number _ _ = NaN"

text \<open>White space and line terminators below code unit 256, skipped by \<^verbatim>\<open>parseInt\<close>.\<close>

definition isWhiteSpace :: "char \<Rightarrow> bool" where
  "isWhiteSpace c \<longleftrightarrow> of_char c \<in> {9, 10, 11, 12, 13, 32, 160 :: nat}"

text \<open>The value of a digit in a radix, \<open>None\<close> when the code unit is no digit of the radix.\<close>

definition digitValue :: "nat \<Rightarrow> char \<Rightarrow> nat option" where
  "digitValue radix c =
     (let n = (of_char c :: nat);
          v = (if 48 \<le> n \<and> n \<le> 57 then Some (n - 48)
               else if 97 \<le> n \<and> n \<le> 122 then Some (n - 87)
               else if 65 \<le> n \<and> n \<le> 90 then Some (n - 55)
               else None)
      in case v of None \<Rightarrow> None | Some d \<Rightarrow> if d < radix then Some d else None)"

text \<open>
  The longest prefix of digits, read in the radix: the number of digits consumed
  and their value, with the accumulator threaded from the left.
\<close>

fun parseDigits :: "nat \<Rightarrow> string \<Rightarrow> nat \<times> nat \<Rightarrow> nat \<times> nat" where
  "parseDigits radix [] acc = acc"
| "parseDigits radix (c # cs) (len, val) =
     (case digitValue radix c of
        None \<Rightarrow> (len, val)
      | Some d \<Rightarrow> parseDigits radix cs (Suc len, val * radix + d))"

text \<open>
  \<^verbatim>\<open>parseInt(s)\<close> with no radix argument: leading white space is dropped, one sign
  is read, a prefix \<^verbatim>\<open>0x\<close> or \<^verbatim>\<open>0X\<close> selects radix 16 and radix 10 is used otherwise,
  the longest prefix of digits is read, and no digit at all gives NaN.
\<close>

definition parseInt :: "string \<Rightarrow> number" where
  "parseInt inputString =
     (let s = dropWhile isWhiteSpace inputString;
          sign = (if s \<noteq> [] \<and> hd s = CHR ''-'' then - 1 else 1 :: int);
          s1 = (if s \<noteq> [] \<and> (hd s = CHR ''+'' \<or> hd s = CHR ''-'') then tl s else s);
          hex = (take 2 s1 = ''0x'' \<or> take 2 s1 = ''0X'');
          s2 = (if hex then drop 2 s1 else s1);
          radix = (if hex then 16 else 10);
          (len, val) = parseDigits radix s2 (0, 0)
      in if len = 0 then NaN else Fin (sign * int val))"

subsection \<open>Runtime: \<^verbatim>\<open>Array.prototype.sort\<close>\<close>

text \<open>
  The sort reads the comparator's result through \<^verbatim>\<open>SortCompare\<close>, which takes NaN
  as \<open>+0\<close>.
\<close>

definition sortCompare :: "('a \<Rightarrow> 'a \<Rightarrow> number) \<Rightarrow> 'a \<Rightarrow> 'a \<Rightarrow> int" where
  "sortCompare comparefn x y = (case comparefn x y of NaN \<Rightarrow> 0 | Fin v \<Rightarrow> v)"

text \<open>
  \<^verbatim>\<open>xs.sort(comparefn)\<close> is a stable sort: for a consistent comparator the language
  fixes the result, and it is the one of the stable insertion sort below. For a
  comparator that is not consistent the language leaves the order to the engine;
  the embedding keeps the insertion sort there, which compares neighbours and moves an
  element only past a neighbour that the comparator puts strictly before it.
\<close>

fun array_insert :: "('a \<Rightarrow> 'a \<Rightarrow> number) \<Rightarrow> 'a \<Rightarrow> 'a list \<Rightarrow> 'a list" where
  "array_insert comparefn x [] = [x]"
| "array_insert comparefn x (y # ys) =
     (if sortCompare comparefn x y \<le> 0 then x # y # ys
      else y # array_insert comparefn x ys)"

fun array_sort :: "('a \<Rightarrow> 'a \<Rightarrow> number) \<Rightarrow> 'a list \<Rightarrow> 'a list" where
  "array_sort comparefn [] = []"
| "array_sort comparefn (x # xs) = array_insert comparefn x (array_sort comparefn xs)"

subsection \<open>Runtime: optional strings, the locale and YAML\<close>

text \<open>
  \<^verbatim>\<open>x || d\<close> on an optional string: \<^verbatim>\<open>undefined\<close> and the empty string are both falsy.
\<close>

definition or_default :: "string option \<Rightarrow> string \<Rightarrow> string" where
  "or_default x d = (case x of None \<Rightarrow> d | Some s \<Rightarrow> if s = [] then d else s)"

text \<open>An optional string inside a template literal: \<^verbatim>\<open>undefined\<close> prints as its name.\<close>

definition templateString :: "string option \<Rightarrow> string" where
  "templateString x = (case x of None \<Rightarrow> ''undefined'' | Some s \<Rightarrow> s)"

text \<open>
  The parts of the runtime whose results depend on the engine and on a library:
  \<^verbatim>\<open>String.prototype.localeCompare\<close>, and the composition
  \<^verbatim>\<open>YAML.stringify(JSON.parse(JSON.stringify(x)), { sortMapEntries: true })\<close>.
  They are parameters of the embedding.
\<close>

record 'r Runtime =
  localeCompare :: "string \<Rightarrow> string \<Rightarrow> int"
  yamlStringify :: "'r \<Rightarrow> string"

text \<open>
  A consistent comparison function, as the language defines it for the comparator of
  a sort and requires of \<^verbatim>\<open>localeCompare\<close>: the three outcomes give an equivalence
  and two transitive strict relations.
\<close>

definition consistentComparator :: "('a \<Rightarrow> 'a \<Rightarrow> int) \<Rightarrow> bool" where
  "consistentComparator cmp \<longleftrightarrow>
     (\<forall>a. cmp a a = 0) \<and>
     (\<forall>a b. cmp a b = 0 \<longrightarrow> cmp b a = 0) \<and>
     (\<forall>a b c. cmp a b = 0 \<and> cmp b c = 0 \<longrightarrow> cmp a c = 0) \<and>
     (\<forall>a b c. cmp a b < 0 \<and> cmp b c < 0 \<longrightarrow> cmp a c < 0) \<and>
     (\<forall>a b c. cmp a b > 0 \<and> cmp b c > 0 \<longrightarrow> cmp a c > 0)"

subsection \<open>Host interfaces\<close>

text \<open>
  Modelled from the spec: the modules \<^verbatim>\<open>./octant/*\<close> and \<^verbatim>\<open>./serving/*\<close> that declare the
  host's client, the requests, the resources and the view factories are not part of the
  source given. The spec calls the factories declarative view-model objects handed to a
  host renderer, and the client a host-provided query client. Each is embedded as the
  data the plugin passes to it or reads from it, and nothing more is assumed of it.
\<close>

text \<open>
  A cluster object as far as the plugin reads it: \<^verbatim>\<open>apiVersion\<close>, \<^verbatim>\<open>kind\<close> and the
  \<^verbatim>\<open>metadata\<close> fields \<^verbatim>\<open>name\<close>, \<^verbatim>\<open>namespace\<close> and \<^verbatim>\<open>labels\<close>, each of the three optional;
  the remaining content is \<open>content\<close>. Service, Configuration, Route and Revision all
  have this shape.
\<close>

record ObjectMeta =
  meta_name :: "string option"
  meta_namespace :: "string option"
  labels :: "(string \<times> string) list option"

record 'c resource =
  apiVersion :: string
  kind :: string
  metadata :: ObjectMeta
  content :: 'c

text \<open>The key of a query, with the optional fields the plugin sets.\<close>

record Key =
  key_apiVersion :: string
  key_kind :: string
  key_namespace :: string
  key_name :: "string option"
  selector :: "(string \<times> string option) list option"

text \<open>
  The query client. A call that throws returns \<open>Inl\<close> of the thrown value. The answers
  to equal keys are equal during one request.
\<close>

record ('e, 'c) DashboardClient =
  List :: "Key \<Rightarrow> 'e + 'c resource list"
  Get :: "Key \<Rightarrow> 'e + 'c resource"

record ContentRequest =
  contentPath :: string

record ActionPayload =
  payload_namespace :: string

record ActionRequest =
  actionName :: string
  request_payload :: ActionPayload

typedecl ObjectRequest
typedecl PrintResponse
typedecl TabResponse
typedecl ActionResponse

text \<open>The payload, the confirmation and the button of a button group.\<close>

record ButtonPayload =
  action :: string
  payload_apiVersion :: string
  payload_kind :: string
  button_namespace :: string
  payload_name :: "string option"

record Confirmation =
  confirmation_title :: string
  confirmation_body :: string

record Button =
  button_name :: string
  payload :: ButtonPayload
  confirmation :: Confirmation

record EditorMetadata =
  editor_apiVersion :: string
  editor_kind :: string
  editor_namespace :: string
  editor_name :: string

text \<open>
  The view factories, each with the fields of the object literal it is built from;
  \<open>Component\<close> is the result of \<^verbatim>\<open>toComponent()\<close>. The value of a text is optional
  because the detail handlers pass an array element that may be \<^verbatim>\<open>undefined\<close>.
\<close>

datatype 'c ComponentFactory =
    TextFactory "string option"
  | LinkFactory string string
  | ListFactory "'c Component list" "'c FactoryMetadata option"
  | ServiceListFactory "'c resource list" "'c FactoryMetadata option"
  | ConfigurationListFactory "'c resource list" "'c FactoryMetadata option"
  | RouteListFactory "'c resource list" "'c FactoryMetadata option"
  | ServiceSummaryFactory "'c resource" "'c resource list" "'c FactoryMetadata option"
  | ConfigurationSummaryFactory "'c resource" "'c resource list" "'c FactoryMetadata option"
  | RouteSummaryFactory "'c resource" "'c FactoryMetadata option"
  | EditorFactory string bool EditorMetadata "'c FactoryMetadata option"
  | ButtonGroupFactory "Button list"
and 'c Component = Component "'c ComponentFactory"
and 'c FactoryMetadata =
    FactoryMetadata (fm_title: "'c Component list option") (fm_accessor: "string option")

text \<open>
  Modelled from the spec: \<^verbatim>\<open>h.createContentResponse(title, body, buttonGroup?)\<close> of
  \<^verbatim>\<open>./octant/component-helpers\<close> is not part of the source given; the response is the
  display object made of its three arguments.
\<close>

record 'c ContentResponse =
  title :: "'c ComponentFactory list"
  viewComponents :: "'c ComponentFactory list"
  buttonGroup :: "'c ComponentFactory option"

definition createContentResponse ::
  "'c ComponentFactory list \<Rightarrow> 'c ComponentFactory list \<Rightarrow> 'c ComponentFactory option
     \<Rightarrow> 'c ContentResponse" where
  "createContentResponse t body bg = \<lparr>title = t, viewComponents = body, buttonGroup = bg\<rparr>"

text \<open>
  Modelled from the spec: the class \<^verbatim>\<open>h.Navigation\<close> of \<^verbatim>\<open>./octant/component-helpers\<close>
  is not part of the source given. A navigation entry keeps the title, the path and
  the icon it is constructed with, and \<^verbatim>\<open>add\<close> appends a child entry that keeps the
  title and the path it is given.
\<close>

datatype Navigation =
  Navigation (nav_title: string) (nav_path: string) (iconName: "string option")
    (children: "Navigation list")

definition new_Navigation :: "string \<Rightarrow> string \<Rightarrow> string option \<Rightarrow> Navigation" where
  "new_Navigation t p icon = Navigation t p icon []"

definition add :: "Navigation \<Rightarrow> string \<Rightarrow> string \<Rightarrow> Navigation" where
  "add nav t p =
     Navigation (nav_title nav) (nav_path nav) (iconName nav)
       (children nav @ [new_Navigation t p None])"

subsection \<open>The plugin object\<close>

record Capabilities =
  supportPrinterConfig :: "string list"
  supportTab :: "string list"
  actionNames :: "string list"

record ('e, 'c, 'h) MyPlugin =
  name :: string
  description :: string
  isModule :: bool
  dashboardClient :: "('e, 'c) DashboardClient"
  httpClient :: 'h
  capabilities :: Capabilities
  namespace :: string

definition new_MyPlugin :: "('e, 'c) DashboardClient \<Rightarrow> 'h \<Rightarrow> ('e, 'c, 'h) MyPlugin" where
  "new_MyPlugin dc hc =
     \<lparr>name = ''knative'',
      description = ''Knative plugin for Octant'',
      isModule = True,
      dashboardClient = dc,
      httpClient = hc,
      capabilities =
        \<lparr>supportPrinterConfig = [],
         supportTab = [],
         actionNames = [''knative/testAction'', ''action.octant.dev/setNamespace'']\<rparr>,
      namespace = ''default''\<rparr>"

datatype Error = Error string

definition printHandler ::
  "('e, 'c, 'h) MyPlugin \<Rightarrow> ObjectRequest \<Rightarrow> (Error + PrintResponse) \<times> ('e, 'c, 'h) MyPlugin" where
  "printHandler this request =
     (Inl (Error ''KnativePlugin#printHandler should never be called''), this)"

definition actionHandler ::
  "('e, 'c, 'h) MyPlugin \<Rightarrow> ActionRequest \<Rightarrow> ActionResponse option \<times> ('e, 'c, 'h) MyPlugin" where
  "actionHandler this request =
     (if actionName request = ''action.octant.dev/setNamespace''
      then (None, this\<lparr>namespace := payload_namespace (request_payload request)\<rparr>)
      else (None, this))"

definition tabHandler ::
  "('e, 'c, 'h) MyPlugin \<Rightarrow> ObjectRequest \<Rightarrow> (Error + TabResponse) \<times> ('e, 'c, 'h) MyPlugin" where
  "tabHandler this request =
     (Inl (Error ''KnativePlugin#tabHandler should never be called''), this)"


subsection \<open>Listings and details\<close>

text \<open>The two comparators passed to \<^verbatim>\<open>sort\<close>.\<close>

definition nameCompare :: "('c resource) Runtime \<Rightarrow> 'c resource \<Rightarrow> 'c resource \<Rightarrow> number" where
  "nameCompare rt a b =
     Fin (localeCompare rt (or_default (meta_name (metadata a)) [])
                           (or_default (meta_name (metadata b)) []))"

text \<open>
  \<^verbatim>\<open>(a.metadata.labels || {})['serving.knative.dev/configurationGeneration']\<close> and the
  same with its fallback \<^verbatim>\<open>|| '-1'\<close>.
\<close>

definition configurationGeneration :: "'c resource \<Rightarrow> string option" where
  "configurationGeneration a =
     (case labels (metadata a) of
        None \<Rightarrow> None
      | Some ls \<Rightarrow> map_of ls ''serving.knative.dev/configurationGeneration'')"

definition generationLabel :: "'c resource \<Rightarrow> string" where
  "generationLabel a = or_default (configurationGeneration a) ''-1''"

definition generationCompare :: "'c resource \<Rightarrow> 'c resource \<Rightarrow> number" where
  "generationCompare a b =
     (let generationA = generationLabel a;
          generationB = generationLabel b
      in minus_number (parseInt generationA) (parseInt generationB))"

text \<open>
  The object literals that the source writes out at each use: the keys of the three
  kinds of query, the metadata of the two tabs of a detail page, and the YAML editor.
\<close>

definition listKey :: "string \<Rightarrow> string \<Rightarrow> Key" where
  "listKey k ns =
     \<lparr>key_apiVersion = ''serving.knative.dev/v1'', key_kind = k, key_namespace = ns,
      key_name = None, selector = None\<rparr>"

definition getKey :: "string \<Rightarrow> string \<Rightarrow> string option \<Rightarrow> Key" where
  "getKey k ns n =
     \<lparr>key_apiVersion = ''serving.knative.dev/v1'', key_kind = k, key_namespace = ns,
      key_name = n, selector = None\<rparr>"

definition revisionKey :: "string \<Rightarrow> string \<Rightarrow> string option \<Rightarrow> Key" where
  "revisionKey ns label owner =
     \<lparr>key_apiVersion = ''serving.knative.dev/v1'', key_kind = ''Revision'', key_namespace = ns,
      key_name = None, selector = Some [(label, owner)]\<rparr>"

definition summaryMetadata :: "'c FactoryMetadata option" where
  "summaryMetadata =
     Some (FactoryMetadata (Some [Component (TextFactory (Some ''Summary''))]) (Some ''summary''))"

definition yamlMetadata :: "'c FactoryMetadata option" where
  "yamlMetadata =
     Some (FactoryMetadata (Some [Component (TextFactory (Some ''YAML''))]) (Some ''yaml''))"

definition yamlEditor :: "('c resource) Runtime \<Rightarrow> 'c resource \<Rightarrow> 'c ComponentFactory" where
  "yamlEditor rt obj =
     EditorFactory (''---'' @ [CHR 0x0A] @ yamlStringify rt obj) False
       \<lparr>editor_apiVersion = apiVersion obj,
        editor_kind = kind obj,
        editor_namespace = or_default (meta_namespace (metadata obj)) [],
        editor_name = or_default (meta_name (metadata obj)) []\<rparr>
       yamlMetadata"

definition serviceListing ::
  "('c resource) Runtime \<Rightarrow> ('e, 'c, 'h) MyPlugin \<Rightarrow> 'c FactoryMetadata option
     \<Rightarrow> 'e + 'c ComponentFactory" where
  "serviceListing rt this factoryMetadata =
     (case List (dashboardClient this) (listKey ''Service'' (namespace this)) of
        Inl e \<Rightarrow> Inl e
      | Inr services \<Rightarrow>
          Inr (ServiceListFactory (array_sort (nameCompare rt) services) factoryMetadata))"

definition serviceDetail ::
  "('c resource) Runtime \<Rightarrow> ('e, 'c, 'h) MyPlugin \<Rightarrow> string option
     \<Rightarrow> 'e + 'c ComponentFactory list" where
  "serviceDetail rt this n =
     (case Get (dashboardClient this) (getKey ''Service'' (namespace this) n) of
        Inl e \<Rightarrow> Inl e
      | Inr service \<Rightarrow>
          (case List (dashboardClient this)
                  (revisionKey (namespace this) ''serving.knative.dev/service''
                     (meta_name (metadata service))) of
             Inl e \<Rightarrow> Inl e
           | Inr revisions \<Rightarrow>
               Inr [ServiceSummaryFactory service (array_sort generationCompare revisions)
                      summaryMetadata,
                    yamlEditor rt service]))"

definition configurationListing ::
  "('c resource) Runtime \<Rightarrow> ('e, 'c, 'h) MyPlugin \<Rightarrow> 'c FactoryMetadata option
     \<Rightarrow> 'e + 'c ComponentFactory" where
  "configurationListing rt this factoryMetadata =
     (case List (dashboardClient this) (listKey ''Configuration'' (namespace this)) of
        Inl e \<Rightarrow> Inl e
      | Inr configurations \<Rightarrow>
          Inr (ConfigurationListFactory (array_sort (nameCompare rt) configurations)
                 factoryMetadata))"

definition configurationDetail ::
  "('c resource) Runtime \<Rightarrow> ('e, 'c, 'h) MyPlugin \<Rightarrow> string option
     \<Rightarrow> 'e + 'c ComponentFactory list" where
  "configurationDetail rt this n =
     (case Get (dashboardClient this) (getKey ''Configuration'' (namespace this) n) of
        Inl e \<Rightarrow> Inl e
      | Inr configuration \<Rightarrow>
          (case List (dashboardClient this)
                  (revisionKey (namespace this) ''serving.knative.dev/configuration''
                     (meta_name (metadata configuration))) of
             Inl e \<Rightarrow> Inl e
           | Inr revisions \<Rightarrow>
               Inr [ConfigurationSummaryFactory configuration
                      (array_sort generationCompare revisions) summaryMetadata,
                    yamlEditor rt configuration]))"

definition routeListing ::
  "('c resource) Runtime \<Rightarrow> ('e, 'c, 'h) MyPlugin \<Rightarrow> 'c FactoryMetadata option
     \<Rightarrow> 'e + 'c ComponentFactory" where
  "routeListing rt this factoryMetadata =
     (case List (dashboardClient this) (listKey ''Route'' (namespace this)) of
        Inl e \<Rightarrow> Inl e
      | Inr routes \<Rightarrow>
          Inr (RouteListFactory (array_sort (nameCompare rt) routes) factoryMetadata))"

definition routeDetail ::
  "('c resource) Runtime \<Rightarrow> ('e, 'c, 'h) MyPlugin \<Rightarrow> string option
     \<Rightarrow> 'e + 'c ComponentFactory list" where
  "routeDetail rt this n =
     (case Get (dashboardClient this) (getKey ''Route'' (namespace this) n) of
        Inl e \<Rightarrow> Inl e
      | Inr route \<Rightarrow> Inr [RouteSummaryFactory route summaryMetadata, yamlEditor rt route])"

subsection \<open>Content handlers\<close>

text \<open>
  The literals shared by the handlers: the metadata that carries one text as title,
  and the Delete button of a detail page, which differs in the kind only.
\<close>

definition titled :: "string \<Rightarrow> 'c FactoryMetadata option" where
  "titled t = Some (FactoryMetadata (Some [Component (TextFactory (Some t))]) None)"

definition deleteButton :: "string \<Rightarrow> string \<Rightarrow> string option \<Rightarrow> Button" where
  "deleteButton k ns n =
     \<lparr>button_name = ''Delete'',
      payload =
        \<lparr>action = ''action.octant.dev/deleteObject'',
         payload_apiVersion = ''serving.knative.dev/v1'',
         payload_kind = k,
         button_namespace = ns,
         payload_name = n\<rparr>,
      confirmation =
        \<lparr>confirmation_title = ''Delete '' @ k,
         confirmation_body =
           ''Are you sure you want to delete *'' @ k @ ''* **'' @ templateString n @
           ''**? This action is permanent and cannot be recovered.''\<rparr>\<rparr>"

definition knativeOverviewHandler ::
  "('c resource) Runtime \<Rightarrow> ('e, 'c, 'h) MyPlugin \<Rightarrow> ContentRequest \<Rightarrow> 'e + 'c ContentResponse" where
  "knativeOverviewHandler rt this request =
     (let t = [TextFactory (Some ''Knative'')] in
      case serviceListing rt this (titled ''Services'') of
        Inl e \<Rightarrow> Inl e
      | Inr services \<Rightarrow>
          (case configurationListing rt this (titled ''Configurations'') of
             Inl e \<Rightarrow> Inl e
           | Inr configurations \<Rightarrow>
               (case routeListing rt this (titled ''Routes'') of
                  Inl e \<Rightarrow> Inl e
                | Inr routes \<Rightarrow>
                    Inr (createContentResponse t
                           [ListFactory
                              [Component services, Component configurations, Component routes]
                              (Some (FactoryMetadata (Some (map Component t)) None))]
                           None))))"

definition serviceListingHandler ::
  "('c resource) Runtime \<Rightarrow> ('e, 'c, 'h) MyPlugin \<Rightarrow> ContentRequest \<Rightarrow> 'e + 'c ContentResponse" where
  "serviceListingHandler rt this request =
     (let t = [LinkFactory ''Knative'' ''/knative'', TextFactory (Some ''Services'')] in
      case serviceListing rt this (titled ''Services'') of
        Inl e \<Rightarrow> Inl e
      | Inr services \<Rightarrow>
          Inr (createContentResponse t
                 [ListFactory [Component services]
                    (Some (FactoryMetadata (Some (map Component t)) None))]
                 None))"

definition serviceDetailHandler ::
  "('c resource) Runtime \<Rightarrow> ('e, 'c, 'h) MyPlugin \<Rightarrow> ContentRequest \<Rightarrow> 'e + 'c ContentResponse" where
  "serviceDetailHandler rt this request =
     (let n = index (string_split (contentPath request) CHR ''/'') 2;
          t = [LinkFactory ''Knative'' ''/knative'',
               LinkFactory ''Services'' ''/knative/services'',
               TextFactory n]
      in case serviceDetail rt this n of
           Inl e \<Rightarrow> Inl e
         | Inr body \<Rightarrow>
             Inr (createContentResponse t body
                    (Some (ButtonGroupFactory [deleteButton ''Service'' (namespace this) n]))))"

definition configurationListingHandler ::
  "('c resource) Runtime \<Rightarrow> ('e, 'c, 'h) MyPlugin \<Rightarrow> ContentRequest \<Rightarrow> 'e + 'c ContentResponse" where
  "configurationListingHandler rt this request =
     (let t = [LinkFactory ''Knative'' ''/knative'', TextFactory (Some ''Configurations'')] in
      case configurationListing rt this (titled ''Configurations'') of
        Inl e \<Rightarrow> Inl e
      | Inr configurations \<Rightarrow>
          Inr (createContentResponse t
                 [ListFactory [Component configurations]
                    (Some (FactoryMetadata (Some (map Component t)) None))]
                 None))"

definition configurationDetailHandler ::
  "('c resource) Runtime \<Rightarrow> ('e, 'c, 'h) MyPlugin \<Rightarrow> ContentRequest \<Rightarrow> 'e + 'c ContentResponse" where
  "configurationDetailHandler rt this request =
     (let n = index (string_split (contentPath request) CHR ''/'') 2;
          t = [LinkFactory ''Knative'' ''/knative'',
               LinkFactory ''Configurations'' ''/knative/configurations'',
               TextFactory n]
      in case configurationDetail rt this n of
           Inl e \<Rightarrow> Inl e
         | Inr body \<Rightarrow>
             Inr (createContentResponse t body
                    (Some (ButtonGroupFactory
                             [deleteButton ''Configuration'' (namespace this) n]))))"

definition routeListingHandler ::
  "('c resource) Runtime \<Rightarrow> ('e, 'c, 'h) MyPlugin \<Rightarrow> ContentRequest \<Rightarrow> 'e + 'c ContentResponse" where
  "routeListingHandler rt this request =
     (let t = [LinkFactory ''Knative'' ''/knative'', TextFactory (Some ''Routes'')] in
      case routeListing rt this (titled ''Routes'') of
        Inl e \<Rightarrow> Inl e
      | Inr routes \<Rightarrow>
          Inr (createContentResponse t
                 [ListFactory [Component routes]
                    (Some (FactoryMetadata (Some (map Component t)) None))]
                 None))"

definition routeDetailHandler ::
  "('c resource) Runtime \<Rightarrow> ('e, 'c, 'h) MyPlugin \<Rightarrow> ContentRequest \<Rightarrow> 'e + 'c ContentResponse" where
  "routeDetailHandler rt this request =
     (let n = index (string_split (contentPath request) CHR ''/'') 2;
          t = [LinkFactory ''Knative'' ''/knative'',
               LinkFactory ''Routes'' ''/knative/routes'',
               TextFactory n]
      in case routeDetail rt this n of
           Inl e \<Rightarrow> Inl e
         | Inr body \<Rightarrow>
             Inr (createContentResponse t body
                    (Some (ButtonGroupFactory [deleteButton ''Route'' (namespace this) n]))))"

definition contentHandler ::
  "('c resource) Runtime \<Rightarrow> ('e, 'c, 'h) MyPlugin \<Rightarrow> ContentRequest \<Rightarrow> 'e + 'c ContentResponse" where
  "contentHandler rt this request =
     (let cp = contentPath request in
      if cp = [] then knativeOverviewHandler rt this request
      else if cp = ''/services'' then serviceListingHandler rt this request
      else if startsWith cp ''/services/'' then serviceDetailHandler rt this request
      else if cp = ''/configurations'' then configurationListingHandler rt this request
      else if startsWith cp ''/configurations/'' then configurationDetailHandler rt this request
      else if cp = ''/routes'' then routeListingHandler rt this request
      else if startsWith cp ''/routes/'' then routeDetailHandler rt this request
      else
        (let notFound = TextFactory (Some (''Not Found - '' @ cp))
         in Inr (createContentResponse [notFound] [notFound] None)))"

subsection \<open>Reading the comparators and the pages\<close>

text \<open>
  The number a revision is ordered by, \<^verbatim>\<open>parseInt\<close> of its generation label or of the
  fallback, and that number as an integer when it is one.
\<close>

definition parsedGeneration :: "'c resource \<Rightarrow> number" where
  "parsedGeneration r = parseInt (generationLabel r)"


text \<open>The name an object is ordered by: \<^verbatim>\<open>metadata.name || ''\<close>.\<close>

definition sortName :: "'c resource \<Rightarrow> string" where
  "sortName a = or_default (meta_name (metadata a)) []"



subsection \<open>An example cluster\<close>

text \<open>
  A comparison of strings by code units, one possible \<^verbatim>\<open>localeCompare\<close>, and a
  rendering that prints the kind and the name only.
\<close>

definition codeUnitCompare :: "string \<Rightarrow> string \<Rightarrow> int" where
  "codeUnitCompare a b = (if a < b then - 1 else if a = b then 0 else 1)"

definition exampleRuntime :: "(unit resource) Runtime" where
  "exampleRuntime =
     \<lparr>localeCompare = codeUnitCompare,
      yamlStringify = (\<lambda>obj. ''kind: '' @ kind obj)\<rparr>"

definition exampleObject ::
  "string \<Rightarrow> string \<Rightarrow> (string \<times> string) list option \<Rightarrow> unit resource" where
  "exampleObject k n ls =
     \<lparr>apiVersion = ''serving.knative.dev/v1'', kind = k,
      metadata = \<lparr>meta_name = Some n, meta_namespace = Some ''default'', labels = ls\<rparr>,
      content = ()\<rparr>"

definition exampleRevision :: "string \<Rightarrow> string \<Rightarrow> unit resource" where
  "exampleRevision n generation =
     exampleObject ''Revision'' n
       (Some [(''serving.knative.dev/configurationGeneration'', generation)])"

text \<open>
  A host client over a cluster with two services, two configurations, the revisions
  given, a route listing that fails, and an object of every name but \<^verbatim>\<open>missing\<close>.
\<close>

definition exampleClient :: "unit resource list \<Rightarrow> (string, unit) DashboardClient" where
  "exampleClient revisions =
     \<lparr>List = (\<lambda>k. if key_kind k = ''Service''
                  then Inr [exampleObject ''Service'' ''web'' None,
                            exampleObject ''Service'' ''api'' None]
                  else if key_kind k = ''Configuration''
                  then Inr [exampleObject ''Configuration'' ''web'' None,
                            exampleObject ''Configuration'' ''api'' None]
                  else if key_kind k = ''Revision'' then Inr revisions
                  else Inl ''routes unavailable''),
      Get = (\<lambda>k. case key_name k of
                    None \<Rightarrow> Inl ''no name''
                  | Some n \<Rightarrow>
                      if n = ''missing'' then Inl ''not found''
                      else Inr (exampleObject (key_kind k) n None))\<rparr>"

definition examplePlugin :: "unit resource list \<Rightarrow> (string, unit, unit) MyPlugin" where
  "examplePlugin revisions = new_MyPlugin (exampleClient revisions) ()"

text \<open>Revisions whose labels all parse, and a list with a label that does not.\<close>

definition parsedRevisions :: "unit resource list" where
  "parsedRevisions =
     [exampleRevision ''web-2'' ''2'',
      exampleObject ''Revision'' ''web-0'' None,
      exampleRevision ''web-1'' ''1'']"


section \<open>Properties of the runtime functions\<close>

subsection \<open>Sorting\<close>

lemma mset_array_insert: "mset (array_insert cmp x xs) = add_mset x (mset xs)"
  by (induction xs) auto

lemma mset_array_sort: "mset (array_sort cmp xs) = mset xs"
  by (induction xs) (auto simp: mset_array_insert)

lemma set_array_insert: "set (array_insert cmp x xs) = insert x (set xs)"
  by (induction xs) auto

lemma set_array_sort: "set (array_sort cmp xs) = set xs"
  by (induction xs) (auto simp: set_array_insert)

lemma sorted_array_insert:
  assumes total: "\<And>a b. 0 < sortCompare cmp a b \<Longrightarrow> sortCompare cmp b a \<le> 0"
    and trans: "\<And>a b c. sortCompare cmp a b \<le> 0 \<Longrightarrow> sortCompare cmp b c \<le> 0
                  \<Longrightarrow> sortCompare cmp a c \<le> 0"
    and sorted: "sorted_wrt (\<lambda>a b. sortCompare cmp a b \<le> 0) xs"
  shows "sorted_wrt (\<lambda>a b. sortCompare cmp a b \<le> 0) (array_insert cmp x xs)"
  using sorted
proof (induction xs)
  case Nil
  then show ?case by simp
next
  case (Cons y ys)
  show ?case
  proof (cases "sortCompare cmp x y \<le> 0")
    case True
    with Cons.prems trans show ?thesis by auto
  next
    case False
    then have "sortCompare cmp y x \<le> 0" using total by simp
    with False Cons show ?thesis by (auto simp: set_array_insert)
  qed
qed

lemma sorted_array_sort:
  assumes total: "\<And>a b. 0 < sortCompare cmp a b \<Longrightarrow> sortCompare cmp b a \<le> 0"
    and trans: "\<And>a b c. sortCompare cmp a b \<le> 0 \<Longrightarrow> sortCompare cmp b c \<le> 0
                  \<Longrightarrow> sortCompare cmp a c \<le> 0"
  shows "sorted_wrt (\<lambda>a b. sortCompare cmp a b \<le> 0) (array_sort cmp xs)"
proof (induction xs)
  case Nil
  then show ?case by simp
next
  case (Cons x xs)
  then show ?case using sorted_array_insert[of cmp, OF total trans] by simp
qed

lemma consistent_total:
  assumes "consistentComparator cmp" and "0 < cmp a b"
  shows "cmp b a < 0"
proof (rule ccontr)
  assume "\<not> cmp b a < 0"
  then consider "cmp b a = 0" | "0 < cmp b a" by linarith
  then show False
  proof cases
    case 1
    with assms show ?thesis unfolding consistentComparator_def by (metis less_irrefl)
  next
    case 2
    with assms have "0 < cmp a a" unfolding consistentComparator_def by blast
    with assms show ?thesis unfolding consistentComparator_def by (metis less_irrefl)
  qed
qed

lemma consistent_total':
  assumes "consistentComparator cmp" and "cmp a b < 0"
  shows "0 < cmp b a"
proof (rule ccontr)
  assume "\<not> 0 < cmp b a"
  then consider "cmp b a = 0" | "cmp b a < 0" by linarith
  then show False
  proof cases
    case 1
    with assms show ?thesis unfolding consistentComparator_def by (metis less_irrefl)
  next
    case 2
    with assms have "cmp a a < 0" unfolding consistentComparator_def by blast
    with assms show ?thesis unfolding consistentComparator_def by (metis less_irrefl)
  qed
qed

lemma consistent_trans:
  assumes c: "consistentComparator cmp" and ab: "cmp a b \<le> 0" and bc: "cmp b c \<le> 0"
  shows "cmp a c \<le> (0::int)"
proof (rule ccontr)
  assume "\<not> cmp a c \<le> 0"
  then have ac: "0 < cmp a c" by simp
  then have ca: "cmp c a < 0" using c consistent_total by metis
  from c have eqtr: "\<And>x y z. cmp x y = 0 \<Longrightarrow> cmp y z = 0 \<Longrightarrow> cmp x z = 0"
    and lttr: "\<And>x y z. cmp x y < 0 \<Longrightarrow> cmp y z < 0 \<Longrightarrow> cmp x z < 0"
    and sym: "\<And>x y. cmp x y = 0 \<Longrightarrow> cmp y x = 0"
    and refl: "\<And>x. cmp x x = 0"
    unfolding consistentComparator_def by blast+
  consider "cmp a b = 0" "cmp b c = 0" | "cmp a b < 0" | "cmp a b = 0" "cmp b c < 0"
    using ab bc by linarith
  then show False
  proof cases
    case 1
    then show ?thesis using eqtr ac by fastforce
  next
    case 2
    with ca have "cmp c b < 0" using lttr by blast
    then have "0 < cmp b c" using c consistent_total' by metis
    with bc show ?thesis by simp
  next
    case 3
    with ca have "cmp b a < 0" using lttr by blast
    moreover have "cmp b a = 0" using 3 sym by blast
    ultimately show ?thesis by simp
  qed
qed



subsection \<open>Paths\<close>

lemma startsWith_iff: "startsWith s p \<longleftrightarrow> (\<exists>rest. s = p @ rest)"
  unfolding startsWith_def
  by (metis append_eq_conv_conj append_take_drop_id)







subsection \<open>The two comparators\<close>

lemma consistent_codeUnitCompare: "consistentComparator codeUnitCompare"
  unfolding consistentComparator_def codeUnitCompare_def
  by (auto split: if_splits)



lemma sortCompare_name:
  "sortCompare (nameCompare rt) a b = localeCompare rt (sortName a) (sortName b)"
  by (simp add: sortCompare_def nameCompare_def sortName_def)

lemma sorted_names:
  assumes "consistentComparator (localeCompare rt)"
  shows "sorted_wrt (\<lambda>a b. localeCompare rt (sortName a) (sortName b) \<le> 0)
           (array_sort (nameCompare rt) xs)"
proof -
  have total: "\<And>a b. 0 < sortCompare (nameCompare rt) a b \<Longrightarrow> sortCompare (nameCompare rt) b a \<le> 0"
    using consistent_total[OF assms] by (simp add: sortCompare_name less_imp_le)
  have trans: "\<And>a b c. sortCompare (nameCompare rt) a b \<le> 0 \<Longrightarrow> sortCompare (nameCompare rt) b c \<le> 0
                  \<Longrightarrow> sortCompare (nameCompare rt) a c \<le> 0"
    using consistent_trans[OF assms] by (simp add: sortCompare_name)
  from sorted_array_sort[of "nameCompare rt", OF total trans]
  show ?thesis by (simp add: sortCompare_name)
qed





subsection \<open>The example cluster\<close>

lemma parsed_example:
  "parsedGeneration (exampleRevision n ''2'') = Fin 2"
  "parsedGeneration (exampleRevision n ''1'') = Fin 1"
  "parsedGeneration (exampleRevision n ''x'') = NaN"
  "parsedGeneration (exampleObject k n None) = Fin (- 1)"
  "configurationGeneration (exampleObject k n None) = None"
  by (simp_all add: parsedGeneration_def generationLabel_def configurationGeneration_def
        exampleRevision_def exampleObject_def or_default_def parseInt_def digitValue_def
        isWhiteSpace_def)

lemma example_queries:
  "n \<noteq> ''missing'' \<Longrightarrow>
   Get (dashboardClient (examplePlugin revisions))
     (getKey k (namespace (examplePlugin revisions)) (Some n)) = Inr (exampleObject k n None)"
  "Get (dashboardClient (examplePlugin revisions))
     (getKey k (namespace (examplePlugin revisions)) (Some ''missing'')) = Inl ''not found''"
  "List (dashboardClient (examplePlugin revisions))
     (revisionKey (namespace (examplePlugin revisions)) l owner) = Inr revisions"
  "List (dashboardClient (examplePlugin revisions))
     (listKey ''Route'' (namespace (examplePlugin revisions))) = Inl ''routes unavailable''"
  "List (dashboardClient (examplePlugin revisions))
     (listKey ''Service'' (namespace (examplePlugin revisions))) =
     Inr [exampleObject ''Service'' ''web'' None, exampleObject ''Service'' ''api'' None]"
  "List (dashboardClient (examplePlugin revisions))
     (listKey ''Configuration'' (namespace (examplePlugin revisions))) =
     Inr [exampleObject ''Configuration'' ''web'' None,
          exampleObject ''Configuration'' ''api'' None]"
  by (simp_all add: examplePlugin_def new_MyPlugin_def exampleClient_def getKey_def
        revisionKey_def listKey_def)


lemma sortCompare_parsed:
  "sortCompare generationCompare a b =
     (case minus_number (parsedGeneration a) (parsedGeneration b) of NaN \<Rightarrow> 0 | Fin v \<Rightarrow> v)"
  by (simp add: sortCompare_def generationCompare_def parsedGeneration_def)


text \<open>
  With a label that does not parse the comparator is not consistent: generation 1
  compares equal to the label \<^verbatim>\<open>x\<close> and \<^verbatim>\<open>x\<close> equal to a revision without a label,
  while generation 1 compares greater than the revision without a label. The sort
  then leaves either listing order of the three as it is.
\<close>

lemma generationCompare_unparsed:
  "parsedGeneration (exampleRevision ''web-x'' ''x'' :: unit resource) = NaN \<and>
   sortCompare generationCompare
     (exampleRevision ''web-1'' ''1'') (exampleRevision ''web-x'' ''x'' :: unit resource) = 0 \<and>
   sortCompare generationCompare
     (exampleRevision ''web-x'' ''x'') (exampleObject ''Revision'' ''web-0'' None) = 0 \<and>
   sortCompare generationCompare
     (exampleRevision ''web-1'' ''1'') (exampleObject ''Revision'' ''web-0'' None) = 2 \<and>
   array_sort generationCompare
     [exampleRevision ''web-1'' ''1'',
      exampleRevision ''web-x'' ''x'',
      exampleObject ''Revision'' ''web-0'' None] =
     [exampleRevision ''web-1'' ''1'',
      exampleRevision ''web-x'' ''x'',
      exampleObject ''Revision'' ''web-0'' None] \<and>
   array_sort generationCompare
     [exampleObject ''Revision'' ''web-0'' None,
      exampleRevision ''web-x'' ''x'',
      exampleRevision ''web-1'' ''1''] =
     [exampleObject ''Revision'' ''web-0'' None,
      exampleRevision ''web-x'' ''x'',
      exampleRevision ''web-1'' ''1'']"
  by (simp add: sortCompare_parsed parsed_example)

subsection \<open>What a page depends on\<close>




subsection \<open>Failures\<close>







subsection \<open>Detail pages\<close>






section \<open>The claims\<close>

subsection \<open>Handlers without queries\<close>


text \<open>
  Claim C9. The print handler and the tab handler throw for every request: the
  result is the thrown error, never a response, and the plugin is returned as it was.
\<close>

theorem printHandler_tabHandler_throw:
  "printHandler this request =
     (Inl (Error ''KnativePlugin#printHandler should never be called''), this) \<and>
   tabHandler this request =
     (Inl (Error ''KnativePlugin#tabHandler should never be called''), this) \<and>
   (\<nexists>response. fst (printHandler this request) = Inr response) \<and>
   (\<nexists>response. fst (tabHandler this request) = Inr response)"
  by (simp add: printHandler_def tabHandler_def)

text \<open>
  Claim C8. The action handler never returns a response. For the action
  \<^verbatim>\<open>action.octant.dev/setNamespace\<close> the plugin afterwards is the plugin before with its
  namespace set to the namespace of the payload, all other fields as they were; for
  every other action name the plugin is unchanged, and that covers
  \<^verbatim>\<open>knative/testAction\<close>, which the capabilities declare.
\<close>

theorem actionHandler_frame:
  "fst (actionHandler this request) = None \<and>
   (actionName request = ''action.octant.dev/setNamespace'' \<longrightarrow>
      snd (actionHandler this request) =
        this\<lparr>namespace := payload_namespace (request_payload request)\<rparr>) \<and>
   (actionName request \<noteq> ''action.octant.dev/setNamespace'' \<longrightarrow>
      snd (actionHandler this request) = this) \<and>
   (actionName request = ''knative/testAction'' \<longrightarrow>
      snd (actionHandler this request) = this) \<and>
   ''knative/testAction'' \<in> set (actionNames (capabilities (new_MyPlugin (dashboardClient this) (httpClient this))))"
  by (auto simp add: actionHandler_def new_MyPlugin_def)

theorem actionHandler_frame_witness:
  "actionHandler (examplePlugin [])
       \<lparr>actionName = ''action.octant.dev/setNamespace'',
        request_payload = \<lparr>payload_namespace = ''kube-system''\<rparr>\<rparr> =
     (None, (examplePlugin [])\<lparr>namespace := ''kube-system''\<rparr>) \<and>
   namespace (examplePlugin []) = ''default'' \<and>
   actionHandler (examplePlugin [])
       \<lparr>actionName = ''knative/testAction'',
        request_payload = \<lparr>payload_namespace = ''kube-system''\<rparr>\<rparr> =
     (None, examplePlugin [])"
proof -
  let ?set = "\<lparr>actionName = ''action.octant.dev/setNamespace'',
        request_payload = \<lparr>payload_namespace = ''kube-system''\<rparr>\<rparr>"
  let ?test = "\<lparr>actionName = ''knative/testAction'',
        request_payload = \<lparr>payload_namespace = ''kube-system''\<rparr>\<rparr>"
  have "actionName ?set = ''action.octant.dev/setNamespace''" by simp
  with actionHandler_frame[of "examplePlugin []" ?set]
  have a: "actionHandler (examplePlugin []) ?set =
            (None, (examplePlugin [])\<lparr>namespace := ''kube-system''\<rparr>)"
    by (simp add: prod_eq_iff)
  have "actionName ?test = ''knative/testAction''" by simp
  with actionHandler_frame[of "examplePlugin []" ?test]
  have b: "actionHandler (examplePlugin []) ?test = (None, examplePlugin [])"
    by (simp add: prod_eq_iff)
  have c: "namespace (examplePlugin []) = ''default''"
    by (simp add: examplePlugin_def new_MyPlugin_def)
  from a b c show ?thesis by simp
qed

text \<open>
  Claim C1. The content handler dispatches on the content path: the empty path
  gives the overview, the three exact paths give the listings, every path that extends
  \<^verbatim>\<open>/services/\<close>, \<^verbatim>\<open>/configurations/\<close> or \<^verbatim>\<open>/routes/\<close> gives the detail page of
  that kind, and every other path gives the response whose one text is
  \<^verbatim>\<open>Not Found - \<close> followed by the path. The path \<^verbatim>\<open>/services\<close> is an exact match, so
  it is answered by the listing.
\<close>

theorem contentHandler_dispatch:
  "(contentPath request = [] \<longrightarrow>
      contentHandler rt this request = knativeOverviewHandler rt this request) \<and>
   (contentPath request = ''/services'' \<longrightarrow>
      contentHandler rt this request = serviceListingHandler rt this request) \<and>
   (contentPath request = ''/configurations'' \<longrightarrow>
      contentHandler rt this request = configurationListingHandler rt this request) \<and>
   (contentPath request = ''/routes'' \<longrightarrow>
      contentHandler rt this request = routeListingHandler rt this request) \<and>
   ((\<exists>rest. contentPath request = ''/services/'' @ rest) \<longrightarrow>
      contentHandler rt this request = serviceDetailHandler rt this request) \<and>
   ((\<exists>rest. contentPath request = ''/configurations/'' @ rest) \<longrightarrow>
      contentHandler rt this request = configurationDetailHandler rt this request) \<and>
   ((\<exists>rest. contentPath request = ''/routes/'' @ rest) \<longrightarrow>
      contentHandler rt this request = routeDetailHandler rt this request) \<and>
   (contentPath request \<notin> {[], ''/services'', ''/configurations'', ''/routes''} \<and>
    \<not> (\<exists>rest. contentPath request = ''/services/'' @ rest) \<and>
    \<not> (\<exists>rest. contentPath request = ''/configurations/'' @ rest) \<and>
    \<not> (\<exists>rest. contentPath request = ''/routes/'' @ rest) \<longrightarrow>
      contentHandler rt this request =
        Inr (createContentResponse
               [TextFactory (Some (''Not Found - '' @ contentPath request))]
               [TextFactory (Some (''Not Found - '' @ contentPath request))] None))"
  by (auto simp add: contentHandler_def startsWith_iff Let_def)

theorem contentHandler_dispatch_witness:
  "contentHandler exampleRuntime (examplePlugin []) \<lparr>contentPath = ''/services''\<rparr> =
     serviceListingHandler exampleRuntime (examplePlugin []) \<lparr>contentPath = ''/services''\<rparr> \<and>
   contentHandler exampleRuntime (examplePlugin []) \<lparr>contentPath = ''/services/web''\<rparr> =
     serviceDetailHandler exampleRuntime (examplePlugin []) \<lparr>contentPath = ''/services/web''\<rparr> \<and>
   contentHandler exampleRuntime (examplePlugin []) \<lparr>contentPath = ''/servicesx''\<rparr> =
     Inr \<lparr>title = [TextFactory (Some ''Not Found - /servicesx'')],
          viewComponents = [TextFactory (Some ''Not Found - /servicesx'')],
          buttonGroup = None\<rparr>"
proof -
  let ?rt = exampleRuntime and ?p = "examplePlugin []"
  have "contentPath \<lparr>contentPath = ''/services''\<rparr> = ''/services''" by simp
  with contentHandler_dispatch[of "\<lparr>contentPath = ''/services''\<rparr>" ?rt ?p]
  have a: "contentHandler ?rt ?p \<lparr>contentPath = ''/services''\<rparr> =
     serviceListingHandler ?rt ?p \<lparr>contentPath = ''/services''\<rparr>" by blast
  have "\<exists>rest. contentPath \<lparr>contentPath = ''/services/web''\<rparr> = ''/services/'' @ rest"
    by simp
  with contentHandler_dispatch[of "\<lparr>contentPath = ''/services/web''\<rparr>" ?rt ?p]
  have b: "contentHandler ?rt ?p \<lparr>contentPath = ''/services/web''\<rparr> =
     serviceDetailHandler ?rt ?p \<lparr>contentPath = ''/services/web''\<rparr>" by blast
  have "contentPath \<lparr>contentPath = ''/servicesx''\<rparr>
          \<notin> {[], ''/services'', ''/configurations'', ''/routes''} \<and>
    \<not> (\<exists>rest. contentPath \<lparr>contentPath = ''/servicesx''\<rparr> = ''/services/'' @ rest) \<and>
    \<not> (\<exists>rest. contentPath \<lparr>contentPath = ''/servicesx''\<rparr> = ''/configurations/'' @ rest) \<and>
    \<not> (\<exists>rest. contentPath \<lparr>contentPath = ''/servicesx''\<rparr> = ''/routes/'' @ rest)"
    by simp
  with contentHandler_dispatch[of "\<lparr>contentPath = ''/servicesx''\<rparr>" ?rt ?p]
  have c: "contentHandler ?rt ?p \<lparr>contentPath = ''/servicesx''\<rparr> =
     Inr \<lparr>title = [TextFactory (Some ''Not Found - /servicesx'')],
          viewComponents = [TextFactory (Some ''Not Found - /servicesx'')],
          buttonGroup = None\<rparr>"
    by (simp add: createContentResponse_def)
  from a b c show ?thesis by simp
qed

subsection \<open>Sorted listings\<close>

text \<open>
  Claim C3. Each of the three listings returns the objects that the host client
  lists for its kind in the plugin's namespace, reordered: the output is a permutation
  of the fetched list and is sorted under the comparator
  \<^verbatim>\<open>(a.metadata.name || '').localeCompare(b.metadata.name || '')\<close>, a missing name
  counting as the empty string. The comparison of strings is the runtime's
  \<^verbatim>\<open>localeCompare\<close>, a consistent comparison function.
\<close>

theorem listings_sorted_by_name:
  assumes "consistentComparator (localeCompare rt)"
  shows
  "(List (dashboardClient this) (listKey ''Service'' (namespace this)) = Inr objs \<longrightarrow>
      (\<exists>out. serviceListing rt this fm = Inr (ServiceListFactory out fm) \<and>
             mset out = mset objs \<and>
             sorted_wrt (\<lambda>a b. localeCompare rt (sortName a) (sortName b) \<le> 0) out)) \<and>
   (List (dashboardClient this) (listKey ''Configuration'' (namespace this)) = Inr objs \<longrightarrow>
      (\<exists>out. configurationListing rt this fm = Inr (ConfigurationListFactory out fm) \<and>
             mset out = mset objs \<and>
             sorted_wrt (\<lambda>a b. localeCompare rt (sortName a) (sortName b) \<le> 0) out)) \<and>
   (List (dashboardClient this) (listKey ''Route'' (namespace this)) = Inr objs \<longrightarrow>
      (\<exists>out. routeListing rt this fm = Inr (RouteListFactory out fm) \<and>
             mset out = mset objs \<and>
             sorted_wrt (\<lambda>a b. localeCompare rt (sortName a) (sortName b) \<le> 0) out))"
  using sorted_names[OF assms, of objs]
  by (simp add: serviceListing_def configurationListing_def routeListing_def mset_array_sort)

theorem listings_sorted_by_name_witness:
  "consistentComparator (localeCompare exampleRuntime) \<and>
   List (dashboardClient (examplePlugin [])) (listKey ''Service'' (namespace (examplePlugin []))) =
     Inr [exampleObject ''Service'' ''web'' None, exampleObject ''Service'' ''api'' None] \<and>
   serviceListing exampleRuntime (examplePlugin []) None =
     Inr (ServiceListFactory
            [exampleObject ''Service'' ''api'' None, exampleObject ''Service'' ''web'' None] None) \<and>
   (\<exists>out. serviceListing exampleRuntime (examplePlugin []) None =
            Inr (ServiceListFactory out None) \<and>
          mset out =
            mset [exampleObject ''Service'' ''web'' None, exampleObject ''Service'' ''api'' None] \<and>
          sorted_wrt (\<lambda>a b. localeCompare exampleRuntime (sortName a) (sortName b) \<le> 0) out)"
proof -
  have c: "consistentComparator (localeCompare exampleRuntime)"
    by (simp add: exampleRuntime_def consistent_codeUnitCompare)
  have l: "List (dashboardClient (examplePlugin []))
             (listKey ''Service'' (namespace (examplePlugin []))) =
           Inr [exampleObject ''Service'' ''web'' None, exampleObject ''Service'' ''api'' None]"
    by (simp add: examplePlugin_def new_MyPlugin_def exampleClient_def listKey_def)
  have e: "serviceListing exampleRuntime (examplePlugin []) None =
     Inr (ServiceListFactory
            [exampleObject ''Service'' ''api'' None, exampleObject ''Service'' ''web'' None] None)"
    by (simp add: serviceListing_def l sortCompare_def nameCompare_def exampleRuntime_def
          codeUnitCompare_def exampleObject_def or_default_def)
  from listings_sorted_by_name[OF c, of "examplePlugin []" _ None] l c e
  show ?thesis by blast
qed




subsection \<open>Revisions of a detail page\<close>

text \<open>
  Claim C4. When the object of a service detail is fetched and the host lists
  revisions for the selector \<^verbatim>\<open>serving.knative.dev/service\<close> equal to the name in the
  metadata of that object, the summary holds exactly those revisions, reordered; the
  same holds for a configuration and the selector
  \<^verbatim>\<open>serving.knative.dev/configuration\<close>. The route detail holds the fetched route and
  no revisions, and it is the same whatever the host would answer to a listing.
\<close>

theorem detail_pages_list_selected_revisions:
  "(Get (dashboardClient this) (getKey ''Service'' (namespace this) n) = Inr owner \<and>
    List (dashboardClient this)
      (revisionKey (namespace this) ''serving.knative.dev/service'' (meta_name (metadata owner))) =
      Inr revisions \<longrightarrow>
      (\<exists>out. serviceDetail rt this n =
               Inr [ServiceSummaryFactory owner out summaryMetadata, yamlEditor rt owner] \<and>
             mset out = mset revisions)) \<and>
   (Get (dashboardClient this) (getKey ''Configuration'' (namespace this) n) = Inr owner \<and>
    List (dashboardClient this)
      (revisionKey (namespace this) ''serving.knative.dev/configuration''
         (meta_name (metadata owner))) =
      Inr revisions \<longrightarrow>
      (\<exists>out. configurationDetail rt this n =
               Inr [ConfigurationSummaryFactory owner out summaryMetadata, yamlEditor rt owner] \<and>
             mset out = mset revisions)) \<and>
   (Get (dashboardClient this) (getKey ''Route'' (namespace this) n) = Inr owner \<longrightarrow>
      routeDetail rt this n = Inr [RouteSummaryFactory owner summaryMetadata, yamlEditor rt owner]) \<and>
   routeDetail rt (this\<lparr>dashboardClient := (dashboardClient this)\<lparr>List := anyList\<rparr>\<rparr>) n =
     routeDetail rt this n"
  by (simp add: serviceDetail_def configurationDetail_def routeDetail_def mset_array_sort)

theorem detail_pages_list_selected_revisions_witness:
  "Get (dashboardClient (examplePlugin parsedRevisions))
     (getKey ''Configuration'' (namespace (examplePlugin parsedRevisions)) (Some ''api'')) =
     Inr (exampleObject ''Configuration'' ''api'' None) \<and>
   List (dashboardClient (examplePlugin parsedRevisions))
     (revisionKey (namespace (examplePlugin parsedRevisions))
        ''serving.knative.dev/configuration'' (Some ''api'')) = Inr parsedRevisions \<and>
   (\<exists>out. configurationDetail exampleRuntime (examplePlugin parsedRevisions) (Some ''api'') =
            Inr [ConfigurationSummaryFactory (exampleObject ''Configuration'' ''api'' None) out
                   summaryMetadata,
                 yamlEditor exampleRuntime (exampleObject ''Configuration'' ''api'' None)] \<and>
          mset out = mset parsedRevisions) \<and>
   routeDetail exampleRuntime (examplePlugin parsedRevisions) (Some ''edge'') =
     Inr [RouteSummaryFactory (exampleObject ''Route'' ''edge'' None) summaryMetadata,
          yamlEditor exampleRuntime (exampleObject ''Route'' ''edge'' None)]"
proof -
  let ?p = "examplePlugin parsedRevisions"
  have n: "meta_name (metadata (exampleObject ''Configuration'' ''api'' None)) = Some ''api''"
    by (simp add: exampleObject_def)
  have g: "Get (dashboardClient ?p) (getKey ''Configuration'' (namespace ?p) (Some ''api'')) =
             Inr (exampleObject ''Configuration'' ''api'' None)"
    by (simp add: example_queries)
  have l: "List (dashboardClient ?p)
             (revisionKey (namespace ?p) ''serving.knative.dev/configuration'' (Some ''api'')) =
           Inr parsedRevisions"
    by (simp add: example_queries)
  have r: "Get (dashboardClient ?p) (getKey ''Route'' (namespace ?p) (Some ''edge'')) =
             Inr (exampleObject ''Route'' ''edge'' None)"
    by (simp add: example_queries)
  from detail_pages_list_selected_revisions
         [of ?p "Some ''api''" "exampleObject ''Configuration'' ''api'' None" parsedRevisions
             exampleRuntime] g l n
  have a: "\<exists>out. configurationDetail exampleRuntime ?p (Some ''api'') =
            Inr [ConfigurationSummaryFactory (exampleObject ''Configuration'' ''api'' None) out
                   summaryMetadata,
                 yamlEditor exampleRuntime (exampleObject ''Configuration'' ''api'' None)] \<and>
          mset out = mset parsedRevisions"
    by simp
  from detail_pages_list_selected_revisions
         [of ?p "Some ''edge''" "exampleObject ''Route'' ''edge'' None" _ exampleRuntime] r
  have b: "routeDetail exampleRuntime ?p (Some ''edge'') =
     Inr [RouteSummaryFactory (exampleObject ''Route'' ''edge'' None) summaryMetadata,
          yamlEditor exampleRuntime (exampleObject ''Route'' ''edge'' None)]"
    by simp
  from g l a b show ?thesis by simp
qed

subsection \<open>Determinism\<close>



subsection \<open>Failures of the host client\<close>



subsection \<open>The name of a detail page\<close>



end
